theory Spec2Isabelle
  imports Main "HOL-Library.Word"
begin

section \<open>Values of the JavaScript run time\<close>

text \<open>
  A \<^verbatim>\<open>Uint8Array\<close> is a list of octets. A thrown value is an \<^verbatim>\<open>Error\<close> object,
  kept with its message; the codec's and the keystore provider's error classes are
  constructors of their own.
  A call either returns or throws synchronously (\<open>outcome\<close>); an \<^verbatim>\<open>async\<close> function never
  throws synchronously, it returns a promise, which is pending, resolved or rejected.
\<close>

type_synonym bytes = "8 word list"

datatype error = Error string | MalformedEnvelopeError | KeystoreProviderUnavailableError string

datatype 'a promise = Pending | Resolved 'a | Rejected error

datatype 'a outcome = Returns 'a | Throws error

section \<open>Topic derivation (Client.ts, line 23)\<close>

text \<open>
  \<^verbatim>\<open>const buildContentTopic = (name: string) => `/xmtp/0/${name}/proto`;\<close>
\<close>

definition buildContentTopic :: "string \<Rightarrow> string" where
  "buildContentTopic name = ''/xmtp/0/'' @ name @ ''/proto''"

section \<open>Data of the messaging layer\<close>

text \<open>
  The key classes come from \<^verbatim>\<open>./crypto\<close> and the envelope class from
  \<^verbatim>\<open>./message/Message\<close>; Client.ts reads of them only the fields below. A key is opaque
  key material. Both kinds of bundle carry an optional \<^verbatim>\<open>identityKey\<close>: a public key in a
  \<^verbatim>\<open>KeyBundle\<close>, a private key in a \<^verbatim>\<open>PrivateKeyBundle\<close>.
\<close>

datatype PublicKey = PublicKey bytes

datatype PrivateKey = PrivateKey bytes

record 'k key_bundle =
  identityKey :: "'k option"

type_synonym KeyBundle = "PublicKey key_bundle"

type_synonym PrivateKeyBundle = "PrivateKey key_bundle"

record Header =
  sender :: "KeyBundle option"
  recipient :: "KeyBundle option"

record Message =
  header :: "Header option"
  ciphertext :: "bytes option"
  decrypted :: "string option"

text \<open>\<^verbatim>\<open>WakuMessage\<close>, \<^verbatim>\<open>PageDirection\<close> and the options of a history query (js-waku).\<close>

record WakuMessage =
  payload :: "bytes option"
  contentTopic :: string
  timestamp :: "int option"

datatype PageDirection = BACKWARD | FORWARD

record QueryOptions =
  q_pageSize :: "int option"
  pageDirection :: PageDirection
  tf_startTime :: "int option"
  tf_endTime :: "int option"

text \<open>
  \<^verbatim>\<open>ListMessagesOptions\<close> (Client.ts, lines 12-16): every field is optional. A
  \<^verbatim>\<open>Date\<close> is its time value, the milliseconds since the epoch.
\<close>

record ListMessagesOptions =
  pageSize :: "int option"
  startTime :: "int option"
  endTime :: "int option"

section \<open>Collaborators\<close>

text \<open>
  The functions Client.ts calls on objects it is handed: the key bundles' cryptography,
  the envelope codec, the text encoder and decoder, and the answers of the transport.
  They are parameters of the model. A collaborator that can throw or reject returns a sum.
  When several promises given to \<^verbatim>\<open>Promise.all\<close> reject, the one that rejects first in
  time is decided by the timing of the collaborators' promises: \<open>settles_first\<close> picks it
  from the rejections, given in the order of the items.
\<close>

record deps =
  getPublicKey :: "PrivateKey \<Rightarrow> PublicKey"
  getEthereumAddress :: "PublicKey \<Rightarrow> string"
  getKeyBundle :: "PrivateKeyBundle \<Rightarrow> KeyBundle"
  encrypt :: "PrivateKeyBundle \<Rightarrow> bytes \<Rightarrow> KeyBundle \<Rightarrow> error + bytes"
  decrypt :: "PrivateKeyBundle \<Rightarrow> bytes \<Rightarrow> KeyBundle \<Rightarrow> error + bytes"
  toBytes :: "Message \<Rightarrow> bytes"
  fromBytes :: "bytes \<Rightarrow> error + Message"
  textEncode :: "string \<Rightarrow> bytes"
  textDecode :: "bytes \<Rightarrow> string"
  relaySend :: "WakuMessage \<Rightarrow> error + unit"
  queryHistory :: "string list \<Rightarrow> QueryOptions \<Rightarrow> error + WakuMessage list"
  settles_first :: "error list \<Rightarrow> nat"

section \<open>Function objects and the world\<close>

text \<open>
  A JavaScript function value is an object with an identity: evaluating a function
  expression makes a new one, equal to no other. \<open>Fn r c\<close> is the function object at
  reference \<open>r\<close> whose body and captured variables are \<open>c\<close>. Client.ts hands the relay
  two kinds: the observer of a stream (lines 134-146), which captures the recipient and
  the \<^verbatim>\<open>resolve\<close> of the stream's promise, and the \<^verbatim>\<open>() => ({})\<close> of line 151.
  The \<^verbatim>\<open>close\<close> handle of lines 150-151 captures the topic.
\<close>

datatype closure =
    StreamObserver PrivateKeyBundle nat
  | EmptyObject

datatype fn = Fn (ref: nat) (code: closure)

datatype close_handle = Close string

text \<open>
  A call of a stream observer that has reached \<^verbatim>\<open>await recipient.decrypt(...)\<close> (line 138)
  is suspended there: \<open>Await stream msg res\<close> is such a call, with the \<^verbatim>\<open>resolve\<close> of
  its stream, the message it decoded and the outcome \<open>res\<close> that the promise of
  \<^verbatim>\<open>decrypt\<close> will have.
\<close>

datatype task = Await nat Message "error + bytes"

text \<open>
  The world holds what the code can change or read outside its arguments: the relay's
  observer registry, the messages handed to \<^verbatim>\<open>relay.send\<close>, the history queries made,
  the promises and the option objects of the heap with the next free reference, the
  clock (its \<open>n\<close>-th reading) with the number of readings taken, the observer calls
  suspended at their \<^verbatim>\<open>await\<close>, and the rejections of promises nobody holds (what the
  host does with an unhandled rejection is outside the model).
\<close>

record world =
  observers :: "(string \<times> fn) list"
  relay_sent :: "WakuMessage list"
  queries :: "(string list \<times> QueryOptions) list"
  promises :: "nat \<Rightarrow> Message list promise"
  objects :: "nat \<Rightarrow> ListMessagesOptions"
  next_ref :: nat
  clock :: "nat \<Rightarrow> int"
  ticks :: nat
  suspended :: "task list"
  unhandled :: "error list"

text \<open>\<^verbatim>\<open>new Date()\<close> and \<^verbatim>\<open>Date.now()\<close> read the clock once.\<close>

definition Date_now :: "world \<Rightarrow> int \<times> world" where
  "Date_now w = (clock w (ticks w), w\<lparr>ticks := Suc (ticks w)\<rparr>)"

text \<open>
  \<^verbatim>\<open>new Date(d.toUTCString())\<close>: the UTC string has whole seconds, so the date read back
  is \<open>d\<close> rounded down to a multiple of 1000 ms.
\<close>

definition Date_of_UTCString :: "int \<Rightarrow> int" where
  "Date_of_UTCString t = 1000 * (t div 1000)"

text \<open>Resolving a promise settles it only while it is pending.\<close>

definition resolve :: "nat \<Rightarrow> Message list \<Rightarrow> world \<Rightarrow> world" where
  "resolve p v w =
     (case promises w p of
        Pending \<Rightarrow> w\<lparr>promises := (promises w)(p := Resolved v)\<rparr>
      | _ \<Rightarrow> w)"

subsection \<open>The relay's observer registry (js-waku)\<close>

text \<open>
  \<^verbatim>\<open>relay.observers\<close> maps a content topic to the set of callbacks registered for it.
  \<^verbatim>\<open>addObserver(callback, topics)\<close> adds the callback to the set of each topic, or to the
  set of the empty topic when no topic is given; \<^verbatim>\<open>deleteObserver(callback, topics)\<close>
  deletes it from the same sets. A set of function objects compares by identity, here
  the reference. The registry is the list of the pairs of a topic and a callback of its
  set, in the order they were added.
\<close>

definition add1 :: "fn \<Rightarrow> string \<Rightarrow> (string \<times> fn) list \<Rightarrow> (string \<times> fn) list" where
  "add1 f t obs =
     (if list_ex (\<lambda>(t', f'). t' = t \<and> ref f' = ref f) obs then obs else obs @ [(t, f)])"

definition delete1 :: "fn \<Rightarrow> string \<Rightarrow> (string \<times> fn) list \<Rightarrow> (string \<times> fn) list" where
  "delete1 f t obs = filter (\<lambda>(t', f'). \<not> (t' = t \<and> ref f' = ref f)) obs"

definition addObserver :: "fn \<Rightarrow> string list \<Rightarrow> (string \<times> fn) list \<Rightarrow> (string \<times> fn) list" where
  "addObserver callback contentTopics obs =
     (if contentTopics = [] then add1 callback [] obs
      else fold (add1 callback) contentTopics obs)"

definition deleteObserver :: "fn \<Rightarrow> string list \<Rightarrow> (string \<times> fn) list \<Rightarrow> (string \<times> fn) list" where
  "deleteObserver callback contentTopics obs =
     (if contentTopics = [] then delete1 callback [] obs
      else fold (delete1 callback) contentTopics obs)"

section \<open>The messaging client (Client.ts)\<close>

subsection \<open>Decoding a payload\<close>

text \<open>
  The observer of \<^verbatim>\<open>streamMessages\<close> (lines 134-146) and the map callback of
  \<^verbatim>\<open>listMessages\<close> (lines 201-211) are \<^verbatim>\<open>async\<close> functions with the same body. Called, the
  body runs without a pause through \<^verbatim>\<open>Message.fromBytes\<close> and the test
  \<^verbatim>\<open>msg.ciphertext && msg.header?.sender\<close>. When the test fails, it goes on to its end at
  once. When the test holds, it calls \<^verbatim>\<open>decrypt\<close> and is suspended at the \<^verbatim>\<open>await\<close> until
  the promise of \<^verbatim>\<open>decrypt\<close> settles; other deliveries and other suspended calls can run in
  between. \<open>started\<close> is where the body stands when the call returns to its caller: it has
  thrown, it is done with the message as decoded, or it awaits the decryption.
\<close>

datatype started = Threw error | Done Message | Awaiting Message "error + bytes"

definition header_sender :: "Message \<Rightarrow> KeyBundle option" where
  "header_sender msg = (case header msg of None \<Rightarrow> None | Some h \<Rightarrow> sender h)"

definition start_decode :: "deps \<Rightarrow> PrivateKeyBundle \<Rightarrow> bytes \<Rightarrow> started" where
  "start_decode d recipient' pl =
     (case fromBytes d pl of
        Inl e \<Rightarrow> Threw e
      | Inr msg \<Rightarrow>
          (case ciphertext msg of
             None \<Rightarrow> Done msg
           | Some c \<Rightarrow>
               (case header_sender msg of
                  None \<Rightarrow> Done msg
                | Some s \<Rightarrow> Awaiting msg (decrypt d recipient' c s))))"

text \<open>
  The rest of the body, run when the promise of \<^verbatim>\<open>decrypt\<close> has settled: a rejection
  is thrown at the \<^verbatim>\<open>await\<close>, otherwise the decoded text is stored in \<^verbatim>\<open>msg.decrypted\<close>.
\<close>

definition finish_decode :: "deps \<Rightarrow> Message \<Rightarrow> error + bytes \<Rightarrow> error + Message" where
  "finish_decode d msg res =
     (case res of
        Inl e \<Rightarrow> Inl e
      | Inr bs \<Rightarrow> Inr (msg\<lparr>decrypted := Some (textDecode d bs)\<rparr>))"

subsection \<open>sendMessage (lines 79-113)\<close>

text \<open>
  An \<^verbatim>\<open>async\<close> method: the result is the promise it returns, as settled when the method
  has run. The world records the message handed to \<^verbatim>\<open>relay.send\<close>.
\<close>

definition sendMessage ::
  "deps \<Rightarrow> PrivateKeyBundle \<Rightarrow> KeyBundle \<Rightarrow> string \<Rightarrow> world \<Rightarrow> unit promise \<times> world" where
  "sendMessage d sender' recipient' msgString w =
     (case identityKey recipient' of
        None \<Rightarrow> (Rejected (Error ''missing recipient''), w)
      | Some k \<Rightarrow>
          (let topic = buildContentTopic (getEthereumAddress d k);
               msgBytes = textEncode d msgString
           in case encrypt d sender' msgBytes recipient' of
                Inl e \<Rightarrow> (Rejected e, w)
              | Inr c \<Rightarrow>
                  (let msg = \<lparr>header = Some \<lparr>sender = Some (getKeyBundle d sender'),
                                             recipient = Some recipient'\<rparr>,
                              ciphertext = Some c, decrypted = None\<rparr>;
                       msg' = msg\<lparr>decrypted := Some msgString\<rparr>;
                       (now, w1) = Date_now w;
                       wakuMsg = \<lparr>payload = Some (toBytes d msg'), contentTopic = topic,
                                  timestamp = Some now\<rparr>;
                       w2 = w1\<lparr>relay_sent := relay_sent w1 @ [wakuMsg]\<rparr>
                   in case relaySend d wakuMsg of
                        Inl e \<Rightarrow> (Rejected e, w2)
                      | Inr _ \<Rightarrow> (Resolved (), w2))))"

subsection \<open>streamMessages (lines 115-153)\<close>

text \<open>
  Not \<^verbatim>\<open>async\<close>: the missing recipient is thrown synchronously. Otherwise the method
  makes the promise \<^verbatim>\<open>stream\<close>, registers the observer under the topic and returns the
  promise with the \<^verbatim>\<open>close\<close> handle.
\<close>

definition streamMessages ::
  "deps \<Rightarrow> PrivateKeyBundle \<Rightarrow> world \<Rightarrow> (nat \<times> close_handle) outcome \<times> world" where
  "streamMessages d recipient' w =
     (case identityKey recipient' of
        None \<Rightarrow> (Throws (Error ''missing recipient''), w)
      | Some k \<Rightarrow>
          (let topic = buildContentTopic (getEthereumAddress d (getPublicKey d k));
               stream = next_ref w;
               observer = Fn (Suc (next_ref w)) (StreamObserver recipient' stream);
               w1 = w\<lparr>promises := (promises w)(stream := Pending),
                       next_ref := Suc (Suc (next_ref w))\<rparr>;
               w2 = w1\<lparr>observers := addObserver observer [topic] (observers w1)\<rparr>
           in (Returns (stream, Close topic), w2)))"

text \<open>
  The observer, called by the relay with a message. The relay does not await the promise
  the call returns, so a throw in the body is a rejection nobody handles. The call
  returns to the relay when the body has thrown, has reached \<^verbatim>\<open>resolve([msg])\<close> without
  an \<^verbatim>\<open>await\<close>, or is suspended at the \<^verbatim>\<open>await\<close>.
\<close>

fun call_observer :: "deps \<Rightarrow> fn \<Rightarrow> WakuMessage \<Rightarrow> world \<Rightarrow> world" where
  "call_observer d (Fn r (StreamObserver recipient' stream)) wakuMsg w =
     (case payload wakuMsg of
        None \<Rightarrow> w
      | Some pl \<Rightarrow>
          (case start_decode d recipient' pl of
             Threw e \<Rightarrow> w\<lparr>unhandled := unhandled w @ [e]\<rparr>
           | Done msg \<Rightarrow> resolve stream [msg] w
           | Awaiting msg res \<Rightarrow> w\<lparr>suspended := suspended w @ [Await stream msg res]\<rparr>))"
| "call_observer d (Fn r EmptyObject) wakuMsg w = w"

text \<open>
  The relay delivering a message (js-waku): the callbacks of the empty topic are
  called, then those of the message's content topic, one after the other.
\<close>

definition callbacks_for :: "string \<Rightarrow> (string \<times> fn) list \<Rightarrow> fn list" where
  "callbacks_for t obs =
     map snd (filter (\<lambda>(t', f). t' = []) obs) @
     (if t = [] then [] else map snd (filter (\<lambda>(t', f). t' = t) obs))"

definition deliver :: "deps \<Rightarrow> WakuMessage \<Rightarrow> world \<Rightarrow> world" where
  "deliver d wakuMsg w =
     fold (\<lambda>f. call_observer d f wakuMsg) (callbacks_for (contentTopic wakuMsg) (observers w)) w"

text \<open>
  The \<open>i\<close>-th suspended call goes on, its decryption having settled: it leaves the
  list of the suspended calls and runs lines 142-144, or throws the rejection.
\<close>

definition resume :: "deps \<Rightarrow> nat \<Rightarrow> world \<Rightarrow> world" where
  "resume d i w =
     (if i < length (suspended w) then
        (case suspended w ! i of
           Await stream msg res \<Rightarrow>
             (let w1 = w\<lparr>suspended := take i (suspended w) @ drop (Suc i) (suspended w)\<rparr>
              in case finish_decode d msg res of
                   Inl e \<Rightarrow> w1\<lparr>unhandled := unhandled w1 @ [e]\<rparr>
                 | Inr msg' \<Rightarrow> resolve stream [msg'] w1))
      else w)"

text \<open>
  What happens to a client after its calls, in the order it happens: the relay delivers
  a message, or a suspended observer call goes on. The order of the events is any:
  a decryption may settle before or after later deliveries and other decryptions.
\<close>

datatype event = Deliver WakuMessage | Resume nat

fun step :: "deps \<Rightarrow> event \<Rightarrow> world \<Rightarrow> world" where
  "step d (Deliver wakuMsg) w = deliver d wakuMsg w"
| "step d (Resume i) w = resume d i w"

definition run :: "deps \<Rightarrow> event list \<Rightarrow> world \<Rightarrow> world" where
  "run d evs w = fold (step d) evs w"

text \<open>
  Calling the \<^verbatim>\<open>close\<close> handle (lines 150-151): it evaluates \<^verbatim>\<open>() => ({})\<close>, a new
  function object, and asks the relay to delete that.
\<close>

fun call_close :: "close_handle \<Rightarrow> world \<Rightarrow> unit outcome \<times> world" where
  "call_close (Close topic) w =
     (let f = Fn (next_ref w) EmptyObject;
          w1 = w\<lparr>next_ref := Suc (next_ref w)\<rparr>
      in (Returns (), w1\<lparr>observers := deleteObserver f [topic] (observers w1)\<rparr>))"

subsection \<open>listMessages (lines 155-213)\<close>

text \<open>
  \<^verbatim>\<open>opts\<close> is a reference to the caller's object, or undefined; the fields are assigned
  through the reference. \<^verbatim>\<open>!opts.pageSize\<close> holds of an unset page size and of 0.
  \<^verbatim>\<open>filter(wakuMsg => wakuMsg?.payload)\<close> keeps the messages with a payload. The
  promise of \<^verbatim>\<open>listMessages\<close> is the one of \<^verbatim>\<open>Promise.all\<close>, taken when every callback has
  settled or one has rejected: it resolves with the messages in the order of the items
  when no callback rejects, and rejects with the rejection that comes first in time
  otherwise.
\<close>

fun payloads :: "WakuMessage list \<Rightarrow> bytes list" where
  "payloads [] = []"
| "payloads (m # ms) = (case payload m of None \<Rightarrow> payloads ms | Some pl \<Rightarrow> pl # payloads ms)"

fun rejections :: "started list \<Rightarrow> error list" where
  "rejections [] = []"
| "rejections (Threw e # xs) = e # rejections xs"
| "rejections (Done msg # xs) = rejections xs"
| "rejections (Awaiting msg (Inl e) # xs) = e # rejections xs"
| "rejections (Awaiting msg (Inr bs) # xs) = rejections xs"

fun fulfilled :: "deps \<Rightarrow> started list \<Rightarrow> Message list" where
  "fulfilled d [] = []"
| "fulfilled d (Threw e # xs) = fulfilled d xs"
| "fulfilled d (Done msg # xs) = msg # fulfilled d xs"
| "fulfilled d (Awaiting msg (Inl e) # xs) = fulfilled d xs"
| "fulfilled d (Awaiting msg (Inr bs) # xs) =
     msg\<lparr>decrypted := Some (textDecode d bs)\<rparr> # fulfilled d xs"

definition Promise_all :: "deps \<Rightarrow> started list \<Rightarrow> error + Message list" where
  "Promise_all d items =
     (case rejections items of
        [] \<Rightarrow> Inr (fulfilled d items)
      | e # es \<Rightarrow> Inl ((e # es) ! (settles_first d (e # es) mod length (e # es))))"

definition update_object :: "nat \<Rightarrow> (ListMessagesOptions \<Rightarrow> ListMessagesOptions) \<Rightarrow> world \<Rightarrow> world" where
  "update_object a f w = w\<lparr>objects := (objects w)(a := f (objects w a))\<rparr>"

definition opts_or_new :: "nat option \<Rightarrow> world \<Rightarrow> nat \<times> world" where
  "opts_or_new opts w =
     (case opts of
        Some a \<Rightarrow> (a, w)
      | None \<Rightarrow>
          (next_ref w,
           w\<lparr>objects := (objects w)(next_ref w :=
                \<lparr>pageSize = None, startTime = None, endTime = None\<rparr>),
             next_ref := Suc (next_ref w)\<rparr>))"

definition default_startTime :: "nat \<Rightarrow> world \<Rightarrow> world" where
  "default_startTime a w =
     (case startTime (objects w a) of
        Some t \<Rightarrow> w
      | None \<Rightarrow>
          (let (t0, w1) = Date_now w;
               (now, w2) = Date_now w1
           in update_object a (\<lambda>ob. ob\<lparr>startTime := Some (now - 1000 * 60 * 60 * 24 * 7)\<rparr>) w2))"

definition default_endTime :: "nat \<Rightarrow> world \<Rightarrow> world" where
  "default_endTime a w =
     (case endTime (objects w a) of
        Some t \<Rightarrow> w
      | None \<Rightarrow>
          (let (now, w1) = Date_now w
           in update_object a (\<lambda>ob. ob\<lparr>endTime := Some (Date_of_UTCString now)\<rparr>) w1))"

definition default_pageSize :: "nat \<Rightarrow> world \<Rightarrow> world" where
  "default_pageSize a w =
     (if pageSize (objects w a) = None \<or> pageSize (objects w a) = Some 0
      then update_object a (\<lambda>ob. ob\<lparr>pageSize := Some 10\<rparr>) w
      else w)"

definition listMessages ::
  "deps \<Rightarrow> PrivateKeyBundle \<Rightarrow> nat option \<Rightarrow> world \<Rightarrow> Message list promise \<times> world" where
  "listMessages d recipient' opts w =
     (let (a, w0) = opts_or_new opts w;
          w3 = default_pageSize a (default_endTime a (default_startTime a w0))
      in case identityKey recipient' of
           None \<Rightarrow> (Rejected (Error ''missing recipient''), w3)
         | Some k \<Rightarrow>
             (let topic = buildContentTopic (getEthereumAddress d (getPublicKey d k));
                  q = \<lparr>q_pageSize = pageSize (objects w3 a), pageDirection = FORWARD,
                       tf_startTime = startTime (objects w3 a),
                       tf_endTime = endTime (objects w3 a)\<rparr>;
                  w4 = w3\<lparr>queries := queries w3 @ [([topic], q)]\<rparr>
              in case queryHistory d [topic] q of
                   Inl e \<Rightarrow> (Rejected e, w4)
                 | Inr wakuMsgs \<Rightarrow>
                     (case Promise_all d (map (start_decode d recipient') (payloads wakuMsgs)) of
                        Inl e \<Rightarrow> (Rejected e, w4)
                      | Inr msgs \<Rightarrow> (Resolved msgs, w4))))"

text \<open>
  A world is well formed when the references held by the registry were allocated:
  each registered function, and the promise of each registered stream observer, lies
  below the next free reference.
\<close>

definition wf_world :: "world \<Rightarrow> bool" where
  "wf_world w =
     list_all (\<lambda>(t, f). ref f < next_ref w \<and>
                 (case code f of StreamObserver r p \<Rightarrow> p < next_ref w | EmptyObject \<Rightarrow> True))
       (observers w)"

section \<open>The envelope codec\<close>

text \<open>
  Modelled from the spec: \<^verbatim>\<open>Message.toBytes\<close> and \<^verbatim>\<open>Message.fromBytes\<close> of
  \<^verbatim>\<open>./message/Message\<close>, which is not among the source files (Client.ts only calls
  them). Section 4.2: encoding is a deterministic serialization of the header fields and
  the ciphertext, total over well-formed envelopes; decoding is its inverse and fails
  with \<^verbatim>\<open>MalformedEnvelopeError\<close> when the octets do not parse into the expected shape of
  header and ciphertext, for example when the sender or the recipient bundle is missing;
  the plaintext is never part of the wire form. The spec fixes no wire format; the one
  below is the model's own.
\<close>

text \<open>
  A length is written as octets 255, each standing for 255, closed by an octet below
  255; a field is its length and then its octets; an optional part is the octet 0 when
  absent and the octet 1 and the part when present.
\<close>

fun put_len :: "nat \<Rightarrow> bytes" where
  "put_len n = (if n < 255 then [of_nat n] else 255 # put_len (n - 255))"

fun get_len :: "bytes \<Rightarrow> (nat \<times> bytes) option" where
  "get_len [] = None"
| "get_len (b # bs) =
     (if b = 255 then (case get_len bs of None \<Rightarrow> None | Some (n, rest) \<Rightarrow> Some (n + 255, rest))
      else Some (unat b, bs))"

definition put_field :: "bytes \<Rightarrow> bytes" where
  "put_field bs = put_len (length bs) @ bs"

definition get_field :: "bytes \<Rightarrow> (bytes \<times> bytes) option" where
  "get_field bs =
     (case get_len bs of
        None \<Rightarrow> None
      | Some (n, rest) \<Rightarrow> if length rest < n then None else Some (take n rest, drop n rest))"

definition put_optional :: "('a \<Rightarrow> bytes) \<Rightarrow> 'a option \<Rightarrow> bytes" where
  "put_optional put x = (case x of None \<Rightarrow> [0] | Some v \<Rightarrow> 1 # put v)"

definition get_optional ::
  "(bytes \<Rightarrow> ('a \<times> bytes) option) \<Rightarrow> bytes \<Rightarrow> ('a option \<times> bytes) option" where
  "get_optional get bs =
     (case bs of
        [] \<Rightarrow> None
      | t # rest \<Rightarrow>
          if t = 0 then Some (None, rest)
          else if t = 1 then
            (case get rest of None \<Rightarrow> None | Some (v, rest') \<Rightarrow> Some (Some v, rest'))
          else None)"

text \<open>A bundle is its optional identity key; a key is the field of its octets.\<close>

definition put_bundle :: "KeyBundle \<Rightarrow> bytes" where
  "put_bundle b = put_optional (\<lambda>k. case k of PublicKey bs \<Rightarrow> put_field bs) (identityKey b)"

definition get_bundle :: "bytes \<Rightarrow> (KeyBundle \<times> bytes) option" where
  "get_bundle bs =
     (case get_optional get_field bs of
        None \<Rightarrow> None
      | Some (k, rest) \<Rightarrow> Some (\<lparr>identityKey = map_option PublicKey k\<rparr>, rest))"

text \<open>
  The envelope is written as sender, recipient and ciphertext. \<^verbatim>\<open>decrypted\<close> is not
  written. Decoding rejects octets left over and an envelope without the sender or the
  recipient bundle, the spec's example of a malformed one, and returns an envelope
  without plaintext. An envelope without ciphertext decodes: section 4.3 has stream and
  list meet decoded envelopes that lack it.
\<close>

definition header_recipient :: "Message \<Rightarrow> KeyBundle option" where
  "header_recipient msg = (case header msg of None \<Rightarrow> None | Some h \<Rightarrow> recipient h)"

definition Message_toBytes :: "Message \<Rightarrow> bytes" where
  "Message_toBytes msg =
     put_optional put_bundle (header_sender msg) @
     put_optional put_bundle (header_recipient msg) @
     put_optional put_field (ciphertext msg)"

definition Message_fromBytes :: "bytes \<Rightarrow> error + Message" where
  "Message_fromBytes bs =
     (case get_optional get_bundle bs of
        None \<Rightarrow> Inl MalformedEnvelopeError
      | Some (s, rest1) \<Rightarrow>
          (case get_optional get_bundle rest1 of
             None \<Rightarrow> Inl MalformedEnvelopeError
           | Some (r, rest2) \<Rightarrow>
               (case get_optional get_field rest2 of
                  None \<Rightarrow> Inl MalformedEnvelopeError
                | Some (c, rest3) \<Rightarrow>
                    if rest3 \<noteq> [] \<or> s = None \<or> r = None
                    then Inl MalformedEnvelopeError
                    else Inr \<lparr>header = Some \<lparr>sender = s, recipient = r\<rparr>,
                              ciphertext = c, decrypted = None\<rparr>)))"

definition well_formed :: "Message \<Rightarrow> bool" where
  "well_formed msg =
     (header_sender msg \<noteq> None \<and> header_recipient msg \<noteq> None \<and> ciphertext msg \<noteq> None)"

section \<open>The keystore provider\<close>

text \<open>
  \<^verbatim>\<open>KeystoreProviderOptions\<close> and the \<^verbatim>\<open>KeystoreProvider\<close> interface are declared in the
  source; the notifier of \<^verbatim>\<open>PreEventCallbackOptions\<close> is a reference to a function object.
  The state of the provider's world counts the calls of each function object, as the test's
  \<^verbatim>\<open>jest.fn()\<close> does.
\<close>

datatype Signer = Signer string

datatype ApiClient = ApiClient string

datatype Keystore = Keystore Signer

record KeystoreProviderOptions =
  env :: string
  persistConversations :: bool
  privateKeyOverride :: "bytes option"
  preCreateIdentityNotifier :: "nat option"

text \<open>
  Modelled from the spec: the body of \<^verbatim>\<open>KeyGeneratorKeystoreProvider.newKeystore\<close>, which
  is not among the source files (only the interface it implements and its test are).
  Section 4.4: with no wallet it fails with \<^verbatim>\<open>KeystoreProviderUnavailableError\<close>; with a
  wallet, the notifier, when supplied, is invoked once before the identity is created,
  and the call resolves to a keystore bound to the identity.
\<close>

definition newKeystore ::
  "KeystoreProviderOptions \<Rightarrow> ApiClient \<Rightarrow> Signer option \<Rightarrow> (nat \<Rightarrow> nat) \<Rightarrow>
     Keystore promise \<times> (nat \<Rightarrow> nat)" where
  "newKeystore opts apiClient wallet calls =
     (case wallet of
        None \<Rightarrow> (Rejected (KeystoreProviderUnavailableError ''wallet required''), calls)
      | Some signer \<Rightarrow>
          (let calls1 = (case preCreateIdentityNotifier opts of
                           None \<Rightarrow> calls
                         | Some n \<Rightarrow> calls(n := Suc (calls n)))
           in (Resolved (Keystore signer), calls1)))"

section \<open>Sample collaborators and worlds\<close>

text \<open>
  Concrete collaborators on which the operations can be run: the public key of a private
  key repeats its octets, the address of a key spells them, encryption reverses the
  text and decryption fails on an empty ciphertext. The codec is the one above. Of
  several rejections the first in the order of the items comes first in time.
\<close>

definition sample_address :: "PublicKey \<Rightarrow> string" where
  "sample_address k = (case k of PublicKey bs \<Rightarrow> ''0x'' @ map (\<lambda>b. if b = 0 then CHR ''0'' else CHR ''f'') bs)"

definition sample_public :: "PrivateKey \<Rightarrow> PublicKey" where
  "sample_public k = (case k of PrivateKey bs \<Rightarrow> PublicKey bs)"

definition sample_header :: Header where
  "sample_header = \<lparr>sender = Some \<lparr>identityKey = Some (PublicKey [7])\<rparr>,
                     recipient = Some \<lparr>identityKey = Some (PublicKey [1])\<rparr>\<rparr>"

definition sample_decrypt :: "PrivateKeyBundle \<Rightarrow> bytes \<Rightarrow> KeyBundle \<Rightarrow> error + bytes" where
  "sample_decrypt r c s = (if c = [] then Inl (Error ''decrypt'') else Inr (rev c))"

definition sample_text :: "bytes \<Rightarrow> string" where
  "sample_text bs = map (\<lambda>b. if b = 104 then CHR ''h'' else CHR ''i'') bs"

definition sample_deps :: "WakuMessage list \<Rightarrow> deps" where
  "sample_deps stored =
     \<lparr>getPublicKey = sample_public,
      getEthereumAddress = sample_address,
      getKeyBundle = (\<lambda>b. \<lparr>identityKey = map_option sample_public (identityKey b)\<rparr>),
      encrypt = (\<lambda>s bs r. Inr (rev bs)),
      decrypt = sample_decrypt,
      toBytes = Message_toBytes,
      fromBytes = Message_fromBytes,
      textEncode = (\<lambda>s. map (\<lambda>c. if c = CHR ''h'' then 104 else 105) s),
      textDecode = sample_text,
      relaySend = (\<lambda>m. Inr ()),
      queryHistory = (\<lambda>topics q. Inr stored),
      settles_first = (\<lambda>es. 0)\<rparr>"

definition fresh_world :: "(nat \<Rightarrow> int) \<Rightarrow> world" where
  "fresh_world clk =
     \<lparr>observers = [], relay_sent = [], queries = [],
      promises = (\<lambda>p. Pending),
      objects = (\<lambda>a. \<lparr>pageSize = None, startTime = None, endTime = None\<rparr>),
      next_ref = 0, clock = clk, ticks = 0, suspended = [], unhandled = []\<rparr>"

text \<open>A clock that reads 1500 ms at every reading, and the fresh world with it.\<close>

definition clock_1500 :: "nat \<Rightarrow> int" where
  "clock_1500 n = 1500"

definition sample_world :: world where
  "sample_world = fresh_world clock_1500"

definition alice :: PrivateKeyBundle where
  "alice = \<lparr>identityKey = Some (PrivateKey [1])\<rparr>"

definition nobody :: PrivateKeyBundle where
  "nobody = \<lparr>identityKey = None\<rparr>"

definition alice_topic :: string where
  "alice_topic = ''/xmtp/0/0xf/proto''"

definition on_alice_topic :: "bytes \<Rightarrow> WakuMessage" where
  "on_alice_topic pl = \<lparr>payload = Some pl, contentTopic = alice_topic, timestamp = None\<rparr>"

text \<open>
  Payloads: the sample header before the ciphertext of the text \<^verbatim>\<open>hi\<close>, before the one
  of \<^verbatim>\<open>h\<close>, before an empty ciphertext, and without ciphertext.
\<close>

definition payload_hi :: bytes where
  "payload_hi = [1, 1, 1, 7, 1, 1, 1, 1, 1, 2, 105, 104]"

definition payload_h :: bytes where
  "payload_h = [1, 1, 1, 7, 1, 1, 1, 1, 1, 1, 104]"

definition payload_empty_ciphertext :: bytes where
  "payload_empty_ciphertext = [1, 1, 1, 7, 1, 1, 1, 1, 1, 0]"

definition payload_no_ciphertext :: bytes where
  "payload_no_ciphertext = [1, 1, 1, 7, 1, 1, 1, 1, 0]"

definition envelope :: "bytes option \<Rightarrow> string option \<Rightarrow> Message" where
  "envelope c p = \<lparr>header = Some sample_header, ciphertext = c, decrypted = p\<rparr>"

definition sample_options :: KeystoreProviderOptions where
  "sample_options = \<lparr>env = ''local'', persistConversations = False,
                      privateKeyOverride = None, preCreateIdentityNotifier = Some 3\<rparr>"

definition no_calls :: "nat \<Rightarrow> nat" where
  "no_calls n = 0"

section \<open>Closed forms used in the proofs\<close>

text \<open>
  The options object after the three defaulting statements of \<^verbatim>\<open>listMessages\<close>, in one
  piece; the state of a promise after a call of its \<^verbatim>\<open>resolve\<close>; whether a function
  object is a stream observer of a given promise; and the states a stream's promise can
  be in, pending or resolved with one message.
\<close>

definition with_defaults :: "world \<Rightarrow> ListMessagesOptions \<Rightarrow> ListMessagesOptions" where
  "with_defaults w ob =
     \<lparr>pageSize = (if pageSize ob = None \<or> pageSize ob = Some 0 then Some 10 else pageSize ob),
      startTime = (case startTime ob of Some t \<Rightarrow> Some t
                   | None \<Rightarrow> Some (clock w (Suc (ticks w)) - 604800000)),
      endTime = (case endTime ob of Some t \<Rightarrow> Some t
                 | None \<Rightarrow> Some (Date_of_UTCString
                     (clock w (if startTime ob = None then ticks w + 2 else ticks w))))\<rparr>"




section \<open>Lemmas about the operations\<close>

subsection \<open>Topics\<close>


subsection \<open>The defaults of listMessages\<close>

lemma objects_default_startTime:
  "objects (default_startTime a w) a =
     (case startTime (objects w a) of
        Some t \<Rightarrow> objects w a
      | None \<Rightarrow> (objects w a)\<lparr>startTime := Some (clock w (Suc (ticks w)) - 604800000)\<rparr>)"
  by (simp add: default_startTime_def update_object_def Date_now_def split: option.splits)

lemma ticks_default_startTime:
  "ticks (default_startTime a w) = (if startTime (objects w a) = None then ticks w + 2 else ticks w)"
  by (simp add: default_startTime_def update_object_def Date_now_def split: option.splits)

lemma clock_default_startTime: "clock (default_startTime a w) = clock w"
  by (simp add: default_startTime_def update_object_def Date_now_def split: option.splits)

lemma objects_default_endTime:
  "objects (default_endTime a w) a =
     (case endTime (objects w a) of
        Some t \<Rightarrow> objects w a
      | None \<Rightarrow> (objects w a)\<lparr>endTime := Some (Date_of_UTCString (clock w (ticks w)))\<rparr>)"
  by (simp add: default_endTime_def update_object_def Date_now_def split: option.splits)

lemma objects_default_pageSize:
  "objects (default_pageSize a w) a =
     (if pageSize (objects w a) = None \<or> pageSize (objects w a) = Some 0
      then (objects w a)\<lparr>pageSize := Some 10\<rparr> else objects w a)"
  by (simp add: default_pageSize_def update_object_def)

lemma objects_defaults:
  "objects (default_pageSize a (default_endTime a (default_startTime a w))) a =
     with_defaults w (objects w a)"
  by (cases "objects w a")
     (auto simp add: objects_default_pageSize objects_default_endTime objects_default_startTime
        ticks_default_startTime clock_default_startTime with_defaults_def split: option.splits)

lemma queries_defaults [simp]:
  "queries (default_pageSize a (default_endTime a (default_startTime a w))) = queries w"
  by (simp add: default_pageSize_def default_endTime_def default_startTime_def update_object_def
      Date_now_def split: option.splits)

lemma listMessages_objects:
  "objects (snd (listMessages d r (Some a) w)) a = with_defaults w (objects w a)"
  by (simp add: listMessages_def opts_or_new_def objects_defaults Let_def split: option.splits sum.splits)

lemma listMessages_queries:
  assumes "identityKey r = Some k"
  shows "queries (snd (listMessages d r (Some a) w)) =
           queries w @ [([buildContentTopic (getEthereumAddress d (getPublicKey d k))],
             \<lparr>q_pageSize = pageSize (with_defaults w (objects w a)), pageDirection = FORWARD,
              tf_startTime = startTime (with_defaults w (objects w a)),
              tf_endTime = endTime (with_defaults w (objects w a))\<rparr>)]"
  using assms
  by (simp add: listMessages_def opts_or_new_def objects_defaults Let_def split: option.splits sum.splits)

lemma listMessages_queries_None:
  assumes "identityKey r = Some k"
  shows "queries (snd (listMessages d r None w)) =
           queries w @ [([buildContentTopic (getEthereumAddress d (getPublicKey d k))],
             \<lparr>q_pageSize = Some 10, pageDirection = FORWARD,
              tf_startTime = Some (clock w (Suc (ticks w)) - 604800000),
              tf_endTime = Some (1000 * (clock w (ticks w + 2) div 1000))\<rparr>)]"
proof -
  let ?w0 = "w\<lparr>objects := (objects w)(next_ref w :=
                \<lparr>pageSize = None, startTime = None, endTime = None\<rparr>),
             next_ref := Suc (next_ref w)\<rparr>"
  have "listMessages d r None w = listMessages d r (Some (next_ref w)) ?w0"
    by (simp add: listMessages_def opts_or_new_def)
  then show ?thesis
    using listMessages_queries [OF assms, of d "next_ref w" ?w0]
    by (simp add: with_defaults_def Date_of_UTCString_def)
qed

lemma queries_opts_or_new [simp]: "queries (snd (opts_or_new opts w)) = queries w"
  by (simp add: opts_or_new_def split: option.splits)

subsection \<open>Promise.all and the payload filter\<close>

lemma rejections_nonempty: "Awaiting msg (Inl e) \<in> set items \<Longrightarrow> rejections items \<noteq> []"
  by (induction items rule: rejections.induct) auto

lemma Promise_all_rejects: "rejections items \<noteq> [] \<Longrightarrow> \<exists>e'. Promise_all d items = Inl e'"
  by (cases "rejections items") (simp_all add: Promise_all_def)

lemma payloads_member: "m \<in> set ms \<Longrightarrow> payload m = Some pl \<Longrightarrow> pl \<in> set (payloads ms)"
  by (induction ms) (auto split: option.splits)

subsection \<open>What a delivery and a resumed call change\<close>


lemma observers_resolve [simp]: "observers (resolve p v w) = observers w"
  by (simp add: resolve_def split: promise.splits)

lemma suspended_resolve [simp]: "suspended (resolve p v w) = suspended w"
  by (simp add: resolve_def split: promise.splits)

lemma observers_call_observer [simp]: "observers (call_observer d f m w) = observers w"
  by (cases "(d, f, m, w)" rule: call_observer.cases) (simp_all split: option.splits started.splits)



lemma observers_fold [simp]:
  "observers (fold (\<lambda>f. call_observer d f m) fs w) = observers w"
  by (induction fs arbitrary: w) simp_all

lemma observers_deliver [simp]: "observers (deliver d m w) = observers w"
  by (simp add: deliver_def)

lemma observers_resume [simp]: "observers (resume d i w) = observers w"
  by (simp add: resume_def Let_def split: task.splits sum.splits)

lemma observers_step [simp]: "observers (step d ev w) = observers w"
  by (cases ev) simp_all

lemma observers_run [simp]: "observers (run d evs w) = observers w"
  unfolding run_def by (induction evs arbitrary: w) simp_all


















subsection \<open>Well-formed worlds, subscribing and closing\<close>




lemma call_close_registry:
  assumes "wf_world w"
  shows "call_close c w = (Returns (), w\<lparr>next_ref := Suc (next_ref w)\<rparr>)"
proof (cases c)
  case (Close topic)
  have "\<forall>(t', f') \<in> set (observers w). ref f' \<noteq> next_ref w"
    using assms by (auto simp add: wf_world_def list_all_iff)
  then have "filter (\<lambda>(t', f'). \<not> (t' = topic \<and> ref f' = next_ref w)) (observers w) = observers w"
    by (auto simp add: filter_id_conv)
  then show ?thesis
    using Close by (simp add: Let_def deleteObserver_def delete1_def)
qed

lemma promises_call_close [simp]: "promises (snd (call_close c w)) = promises w"
  by (cases c) (simp add: Let_def)

lemma suspended_call_close [simp]: "suspended (snd (call_close c w)) = suspended w"
  by (cases c) (simp add: Let_def)

lemma relay_sent_sendMessage:
  "map contentTopic (relay_sent (snd (sendMessage d sd rp text w))) =
     map contentTopic (relay_sent w) @
       (case identityKey rp of
          None \<Rightarrow> []
        | Some pk \<Rightarrow>
            (case encrypt d sd (textEncode d text) rp of
               Inl e \<Rightarrow> []
             | Inr c \<Rightarrow> [buildContentTopic (getEthereumAddress d pk)]))"
  by (simp add: sendMessage_def Let_def Date_now_def split: option.splits sum.splits)

subsection \<open>The codec reads back what it wrote\<close>

declare put_len.simps [simp del]

lemma get_len_put_len: "get_len (put_len n @ rest) = Some (n, rest)"
proof (induction n rule: put_len.induct)
  case (1 n)
  show ?case
  proof (cases "n < 255")
    case True
    then have u: "unat (of_nat n :: 8 word) = n" by (simp add: unat_of_nat)
    have "(of_nat n :: 8 word) \<noteq> 255"
    proof
      assume "(of_nat n :: 8 word) = 255"
      then have "unat (of_nat n :: 8 word) = unat (255 :: 8 word)" by simp
      with u True show False by simp
    qed
    with u have "unat (of_nat n :: 8 word) = n \<and> (of_nat n :: 8 word) \<noteq> 255" by simp
    then
    show ?thesis by (subst put_len.simps) (simp add: True)
  next
    case False
    then show ?thesis using 1 by (subst put_len.simps) simp
  qed
qed

lemma get_field_put_field: "get_field (put_field bs @ rest) = Some (bs, rest)"
  by (simp add: get_field_def put_field_def get_len_put_len)

lemma get_optional_put_optional:
  assumes "\<And>v rest. get (put v @ rest) = Some (v, rest)"
  shows "get_optional get (put_optional put x @ rest) = Some (x, rest)"
  using assms by (cases x) (simp_all add: get_optional_def put_optional_def)

lemma get_bundle_put_bundle: "get_bundle (put_bundle b @ rest) = Some (b, rest)"
proof -
  let ?put = "\<lambda>k. case k of PublicKey bs \<Rightarrow> put_field bs"
  let ?get = "\<lambda>bs. case get_field bs of None \<Rightarrow> None | Some (k, r) \<Rightarrow> Some (PublicKey k, r)"
  have key: "get_optional get_field (put_optional ?put (identityKey b) @ rest) =
               Some (map_option (\<lambda>k. case k of PublicKey bs \<Rightarrow> bs) (identityKey b), rest)"
    by (cases "identityKey b")
       (simp_all add: get_optional_def put_optional_def get_field_put_field split: PublicKey.splits)
  have "map_option PublicKey (map_option (\<lambda>k. case k of PublicKey bs \<Rightarrow> bs) (identityKey b)) =
          identityKey b"
    by (cases "identityKey b") (simp_all split: PublicKey.splits)
  then show ?thesis
    using key by (cases b) (simp add: get_bundle_def put_bundle_def)
qed

subsection \<open>The sample collaborators\<close>

lemmas codec_defs =
  Message_fromBytes_def Message_toBytes_def get_optional_def put_optional_def get_bundle_def
  put_bundle_def get_field_def put_field_def header_sender_def header_recipient_def

lemma decode_samples:
  "Message_fromBytes [] = Inl MalformedEnvelopeError"
  "Message_fromBytes payload_hi = Inr (envelope (Some [105, 104]) None)"
  "Message_fromBytes payload_h = Inr (envelope (Some [104]) None)"
  "Message_fromBytes payload_empty_ciphertext = Inr (envelope (Some []) None)"
  "Message_fromBytes payload_no_ciphertext = Inr (envelope None None)"
  by (simp_all add: codec_defs payload_hi_def payload_h_def payload_empty_ciphertext_def
      payload_no_ciphertext_def envelope_def sample_header_def)

lemmas sample_defs =
  sample_deps_def sample_world_def fresh_world_def clock_1500_def alice_def nobody_def
  alice_topic_def on_alice_topic_def sample_address_def sample_public_def sample_header_def
  sample_decrypt_def sample_text_def envelope_def

lemma sample_subscription:
  "streamMessages (sample_deps stored) alice sample_world =
     (Returns (0, Close alice_topic),
      \<lparr>observers = [(alice_topic, Fn 1 (StreamObserver alice 0))], relay_sent = [],
       queries = [], promises = (\<lambda>p. Pending),
       objects = (\<lambda>a. \<lparr>pageSize = None, startTime = None, endTime = None\<rparr>),
       next_ref = 2, clock = clock_1500, ticks = 0, suspended = [], unhandled = []\<rparr>)"
  by (simp add: streamMessages_def Let_def addObserver_def add1_def buildContentTopic_def
      sample_deps_def sample_address_def sample_public_def alice_def alice_topic_def
      sample_world_def fresh_world_def numeral_2_eq_2 fun_upd_idem)


lemma alice_key: "identityKey alice = Some (PrivateKey [1])"
  by (simp add: alice_def)

lemma alice_topic_eq:
  "alice_topic = buildContentTopic
     (getEthereumAddress (sample_deps stored) (getPublicKey (sample_deps stored) (PrivateKey [1])))"
  by (simp add: sample_defs buildContentTopic_def)

lemma sample_collaborators [simp]:
  "fromBytes (sample_deps stored) = Message_fromBytes"
  "decrypt (sample_deps stored) = sample_decrypt"
  "textDecode (sample_deps stored) = sample_text"
  by (simp_all add: sample_deps_def)

lemmas stream_defs =
  run_def deliver_def resume_def callbacks_for_def start_decode_def finish_decode_def
  resolve_def Let_def

lemmas sample_values =
  on_alice_topic_def alice_topic_def envelope_def header_sender_def sample_header_def
  sample_decrypt_def sample_text_def

text \<open>
  Deliveries do not settle the stream in their order: a message with ciphertext is
  delivered first and awaits its decryption, a message without ciphertext is delivered
  next and resolves the stream at once, and the first message, decrypted later, is not
  yielded.
\<close>

lemma later_delivery_resolves_first:
  "promises (run (sample_deps [])
       [Deliver (on_alice_topic payload_hi), Deliver (on_alice_topic payload_no_ciphertext), Resume 0]
       (snd (streamMessages (sample_deps []) alice sample_world))) 0 =
     Resolved [envelope None None]"
  by (simp add: sample_subscription stream_defs sample_values decode_samples)

section \<open>The claims\<close>

subsection \<open>C1: what a stream yields\<close>




subsection \<open>C2: the cancellation handle\<close>

text \<open>
  C2 asks that the handle deregister the observer of the subscription. The code passes
  \<^verbatim>\<open>deleteObserver\<close> a new function object, so in every well-formed world calling the
  handle returns without a throw and leaves the registry as it was: the observer stays
  registered.
\<close>

theorem close_leaves_registry:
  assumes "wf_world w"
  shows "fst (call_close c w) = Returns () \<and> observers (snd (call_close c w)) = observers w \<and>
         wf_world (snd (call_close c w))"
  using assms by (auto simp add: call_close_registry wf_world_def list_all_iff split: closure.splits)

text \<open>
  The theorem at a subscription on the fresh world: after two calls of the handle the
  observer is still registered, and a valid payload delivered then, its decryption
  settled, resolves the stream.
\<close>

theorem close_leaves_registry_witness:
  "wf_world (snd (streamMessages (sample_deps []) alice sample_world)) \<and>
   fst (call_close (Close alice_topic) (snd (streamMessages (sample_deps []) alice sample_world))) = Returns () \<and>
   observers (snd (call_close (Close alice_topic) (snd (streamMessages (sample_deps []) alice sample_world)))) =
     [(alice_topic, Fn 1 (StreamObserver alice 0))] \<and>
   promises (run (sample_deps []) [Deliver (on_alice_topic payload_hi), Resume 0]
       (snd (call_close (Close alice_topic)
          (snd (call_close (Close alice_topic)
             (snd (streamMessages (sample_deps []) alice sample_world))))))) 0 =
     Resolved [envelope (Some [105, 104]) (Some ''hi'')]"
proof -
  let ?d = "sample_deps []"
  let ?w1 = "snd (streamMessages ?d alice sample_world)"
  have h: "wf_world ?w1"
    by (simp add: wf_world_def sample_subscription)
  have o: "observers ?w1 = [(alice_topic, Fn 1 (StreamObserver alice 0))]"
    by (simp add: sample_subscription)
  have p: "promises ?w1 0 = Pending" "suspended ?w1 = []"
    by (simp_all add: sample_subscription)
  note c1 = close_leaves_registry [OF h, of "Close alice_topic"]
  let ?w2 = "snd (call_close (Close alice_topic) ?w1)"
  let ?w3 = "snd (call_close (Close alice_topic) ?w2)"
  have h2: "wf_world ?w2" using c1 by blast
  have o3: "observers ?w3 = [(alice_topic, Fn 1 (StreamObserver alice 0))]"
    using close_leaves_registry [OF h2, of "Close alice_topic"] c1 o
    by (simp del: call_close.simps)
  have p3: "promises ?w3 0 = Pending" "suspended ?w3 = []"
    using p by (simp_all del: call_close.simps)
  have d: "promises (run ?d [Deliver (on_alice_topic payload_hi), Resume 0] ?w3) 0 =
     Resolved [envelope (Some [105, 104]) (Some ''hi'')]"
    unfolding run_def deliver_def fold_simps step.simps o3
    using p3
    by (simp del: call_close.simps add: callbacks_for_def resume_def start_decode_def
        finish_decode_def resolve_def Let_def on_alice_topic_def alice_topic_def envelope_def
        header_sender_def sample_header_def sample_decrypt_def sample_text_def decode_samples)
  show ?thesis using h c1 o d by (simp del: call_close.simps)
qed


subsection \<open>C3: one topic for sender and recipient\<close>

text \<open>
  C3. When the recipient bundle given to \<^verbatim>\<open>sendMessage\<close> holds the public half of the
  identity key of the private bundle given to \<^verbatim>\<open>streamMessages\<close> and \<^verbatim>\<open>listMessages\<close>, the
  three derive the same topic \<open>T\<close>: the message handed to the relay has it, the observer is
  registered under it and the history query asks for it. Equal identifiers give equal
  topics, and only they do.
\<close>

theorem topic_agreement:
  assumes "identityKey own = Some sk"
    and "identityKey pub = Some (getPublicKey d sk)"
    and "T = buildContentTopic (getEthereumAddress d (getPublicKey d sk))"
  shows "map contentTopic (relay_sent (snd (sendMessage d sd pub text w1))) =
           map contentTopic (relay_sent w1) @
             (case encrypt d sd (textEncode d text) pub of Inl e \<Rightarrow> [] | Inr c \<Rightarrow> [T]) \<and>
         observers (snd (streamMessages d own w2)) =
           addObserver (Fn (Suc (next_ref w2)) (StreamObserver own (next_ref w2))) [T] (observers w2) \<and>
         map fst (queries (snd (listMessages d own opts w3))) = map fst (queries w3) @ [[T]] \<and>
         (buildContentTopic x = buildContentTopic y) = (x = y)"
proof -
  have send: "map contentTopic (relay_sent (snd (sendMessage d sd pub text w1))) =
           map contentTopic (relay_sent w1) @
             (case encrypt d sd (textEncode d text) pub of Inl e \<Rightarrow> [] | Inr c \<Rightarrow> [T])"
    unfolding assms(3) using assms(2) by (simp add: relay_sent_sendMessage)
  have stream: "observers (snd (streamMessages d own w2)) =
           addObserver (Fn (Suc (next_ref w2)) (StreamObserver own (next_ref w2))) [T] (observers w2)"
    unfolding assms(3) using assms(1) by (simp add: streamMessages_def Let_def)
  obtain a w0 where o: "opts_or_new opts w3 = (a, w0)" by (cases "opts_or_new opts w3")
  have q0: "queries w0 = queries w3" using queries_opts_or_new [of opts w3] o by simp
  have list: "map fst (queries (snd (listMessages d own opts w3))) = map fst (queries w3) @ [[T]]"
    unfolding assms(3) using assms(1) o q0 by (simp add: listMessages_def Let_def split: sum.splits)
  have inj: "(buildContentTopic x = buildContentTopic y) = (x = y)"
    by (simp add: buildContentTopic_def)
  from send stream list inj show ?thesis by blast
qed

theorem topic_agreement_witness:
  "identityKey alice = Some (PrivateKey [1]) \<and>
   identityKey (getKeyBundle (sample_deps []) alice) =
     Some (getPublicKey (sample_deps []) (PrivateKey [1])) \<and>
   alice_topic = buildContentTopic
     (getEthereumAddress (sample_deps []) (getPublicKey (sample_deps []) (PrivateKey [1]))) \<and>
   map contentTopic (relay_sent (snd (sendMessage (sample_deps []) alice
       (getKeyBundle (sample_deps []) alice) ''hi'' sample_world))) = [alice_topic] \<and>
   map fst (observers (snd (streamMessages (sample_deps []) alice sample_world))) = [alice_topic] \<and>
   map fst (queries (snd (listMessages (sample_deps []) alice None sample_world))) = [[alice_topic]]"
proof -
  have h1: "identityKey alice = Some (PrivateKey [1])"
    by (simp add: alice_def)
  have h2: "identityKey (getKeyBundle (sample_deps []) alice) =
              Some (getPublicKey (sample_deps []) (PrivateKey [1]))"
    by (simp add: alice_def sample_deps_def)
  have h3: "alice_topic = buildContentTopic
     (getEthereumAddress (sample_deps []) (getPublicKey (sample_deps []) (PrivateKey [1])))"
    by (simp add: sample_defs buildContentTopic_def)
  have e: "encrypt (sample_deps []) alice (textEncode (sample_deps []) ''hi'')
             (getKeyBundle (sample_deps []) alice) = Inr [105, 104]"
    by (simp add: sample_deps_def)
  have s0: "relay_sent sample_world = []" "observers sample_world = []" "queries sample_world = []"
    by (simp_all add: sample_world_def fresh_world_def)
  show ?thesis
    using h1 h2 h3
      topic_agreement [OF h1 h2 h3, of alice "''hi''" sample_world sample_world None sample_world]
    by (simp add: e s0 addObserver_def add1_def)
qed

subsection \<open>C4: the missing recipient\<close>

text \<open>
  C4. With a recipient bundle lacking an identity key, \<^verbatim>\<open>sendMessage\<close> returns a promise
  rejected with the error \<^verbatim>\<open>missing recipient\<close> and \<^verbatim>\<open>streamMessages\<close> throws it
  synchronously; in both cases the world is unchanged, so nothing was sent and no
  observer was registered.
\<close>

theorem missing_recipient_before_transport:
  assumes "identityKey recipient' = None" and "identityKey own = None"
  shows "sendMessage d sender' recipient' msgString w = (Rejected (Error ''missing recipient''), w) \<and>
         streamMessages d own w = (Throws (Error ''missing recipient''), w)"
  using assms by (simp add: sendMessage_def streamMessages_def)

theorem missing_recipient_before_transport_witness:
  "identityKey \<lparr>identityKey = None :: PublicKey option\<rparr> = None \<and> identityKey nobody = None \<and>
   sendMessage (sample_deps []) alice \<lparr>identityKey = None\<rparr> ''hi'' sample_world =
     (Rejected (Error ''missing recipient''), sample_world) \<and>
   streamMessages (sample_deps []) nobody sample_world =
     (Throws (Error ''missing recipient''), sample_world)"
proof -
  have h1: "identityKey \<lparr>identityKey = None :: PublicKey option\<rparr> = None"
    by simp
  have h2: "identityKey nobody = None"
    by (simp add: nobody_def)
  show ?thesis
    using h1 h2
      missing_recipient_before_transport [OF h1 h2, of "sample_deps []" alice "''hi''" sample_world]
    by simp
qed

subsection \<open>C5: the defaults of listMessages\<close>

text \<open>
  C5, as the code has it. With no options, the history query is made in forward
  order with page size 10, start time the clock's reading minus 7 days, and end time the
  clock's reading rounded down to a whole second (the date is read back from its UTC
  string). With an options object, each unset field gets the same default, and a page
  size of 0 counts as unset.
\<close>

theorem list_defaults:
  assumes "identityKey rc = Some k"
    and "T = buildContentTopic (getEthereumAddress d (getPublicKey d k))"
  shows "queries (snd (listMessages d rc None w)) =
           queries w @ [([T],
             \<lparr>q_pageSize = Some 10, pageDirection = FORWARD,
              tf_startTime = Some (clock w (Suc (ticks w)) - 604800000),
              tf_endTime = Some (1000 * (clock w (ticks w + 2) div 1000))\<rparr>)] \<and>
         queries (snd (listMessages d rc (Some a) w)) =
           queries w @ [([T],
             \<lparr>q_pageSize = (if pageSize (objects w a) = None \<or> pageSize (objects w a) = Some 0
                            then Some 10 else pageSize (objects w a)),
              pageDirection = FORWARD,
              tf_startTime = (case startTime (objects w a) of
                                Some t \<Rightarrow> Some t
                              | None \<Rightarrow> Some (clock w (Suc (ticks w)) - 604800000)),
              tf_endTime = (case endTime (objects w a) of
                              Some t \<Rightarrow> Some t
                            | None \<Rightarrow> Some (1000 * (clock w (if startTime (objects w a) = None
                                                            then ticks w + 2 else ticks w) div 1000)))\<rparr>)]"
  unfolding assms(2)
  using listMessages_queries_None [OF assms(1), of d w] listMessages_queries [OF assms(1), of d a w]
  by (simp add: with_defaults_def Date_of_UTCString_def split: option.splits)

theorem list_defaults_witness:
  "identityKey alice = Some (PrivateKey [1]) \<and>
   alice_topic = buildContentTopic
     (getEthereumAddress (sample_deps []) (getPublicKey (sample_deps []) (PrivateKey [1]))) \<and>
   queries (snd (listMessages (sample_deps []) alice None sample_world)) =
     [([alice_topic], \<lparr>q_pageSize = Some 10, pageDirection = FORWARD,
                       tf_startTime = Some (- 604798500), tf_endTime = Some 1000\<rparr>)]"
proof -
  have h1: "identityKey alice = Some (PrivateKey [1])"
    by (simp add: alice_def)
  have h3: "alice_topic = buildContentTopic
     (getEthereumAddress (sample_deps []) (getPublicKey (sample_deps []) (PrivateKey [1])))"
    by (simp add: sample_defs buildContentTopic_def)
  have s0: "queries sample_world = []" "clock sample_world = clock_1500"
    by (simp_all add: sample_world_def fresh_world_def)
  show ?thesis
    using h1 h3 list_defaults [OF h1 h3, of sample_world 0]
    by (simp add: s0 clock_1500_def)
qed

text \<open>
  C5 as stated fails: when the clock reads 1500 ms, the end time of the query is 1000 ms,
  not the time read.
\<close>

theorem list_endTime_counterexample:
  "clock_1500 2 = 1500 \<and>
   map (tf_endTime \<circ> snd) (queries (snd (listMessages (sample_deps []) alice None sample_world))) =
     [Some 1000]"
  by (simp add: listMessages_def opts_or_new_def default_startTime_def default_endTime_def
      default_pageSize_def update_object_def Date_now_def Date_of_UTCString_def Let_def
      Promise_all_def sample_world_def fresh_world_def clock_1500_def alice_def sample_deps_def)

subsection \<open>C6: the round trip of the codec\<close>

text \<open>
  C6. For every well-formed envelope, decoding the encoding of the envelope with its
  plaintext stripped yields that envelope again, and the encoding does not depend on the
  plaintext: whatever \<^verbatim>\<open>decrypted\<close> holds, the octets are the same.
\<close>

theorem codec_round_trip:
  assumes "well_formed e"
  shows "Message_fromBytes (Message_toBytes (e\<lparr>decrypted := None\<rparr>)) = Inr (e\<lparr>decrypted := None\<rparr>) \<and>
         Message_toBytes (e\<lparr>decrypted := p\<rparr>) = Message_toBytes e"
proof -
  obtain h c p0 where e: "e = \<lparr>header = h, ciphertext = c, decrypted = p0\<rparr>"
    by (cases e) simp
  from assms e obtain hd where h: "h = Some hd"
    by (cases h) (simp_all add: well_formed_def header_sender_def)
  obtain s r where hd: "hd = \<lparr>sender = s, recipient = r\<rparr>"
    by (cases hd) simp
  from assms e h hd obtain s' r' c' where parts: "s = Some s'" "r = Some r'" "c = Some c'"
    by (auto simp add: well_formed_def header_sender_def header_recipient_def)
  have same: "Message_toBytes (e\<lparr>decrypted := p\<rparr>) = Message_toBytes e"
    by (simp add: Message_toBytes_def header_sender_def header_recipient_def)
  have bytes: "Message_toBytes (e\<lparr>decrypted := None\<rparr>) =
      put_optional put_bundle s @ put_optional put_bundle r @ put_optional put_field c @ []"
    by (simp add: e h hd Message_toBytes_def header_sender_def header_recipient_def)
  have last: "get_optional get_field (put_optional put_field c) = Some (c, [])"
    using get_optional_put_optional [of get_field put_field c "[]"]
    by (simp add: get_field_put_field)
  have "Message_fromBytes (Message_toBytes (e\<lparr>decrypted := None\<rparr>)) = Inr (e\<lparr>decrypted := None\<rparr>)"
    unfolding bytes
    using last
    by (simp add: Message_fromBytes_def get_optional_put_optional get_bundle_put_bundle
        e h hd parts)
  with same show ?thesis by simp
qed

theorem codec_round_trip_witness:
  "well_formed \<lparr>header = Some sample_header, ciphertext = Some [104, 105],
                 decrypted = Some ''hi''\<rparr> \<and>
   Message_toBytes \<lparr>header = Some sample_header, ciphertext = Some [104, 105],
                     decrypted = Some ''hi''\<rparr> =
     [1, 1, 1, 7, 1, 1, 1, 1, 1, 2, 104, 105] \<and>
   Message_fromBytes [1, 1, 1, 7, 1, 1, 1, 1, 1, 2, 104, 105] =
     Inr \<lparr>header = Some sample_header, ciphertext = Some [104, 105], decrypted = None\<rparr>"
proof -
  let ?e = "\<lparr>header = Some sample_header, ciphertext = Some [104, 105],
             decrypted = Some ''hi''\<rparr>"
  have h: "well_formed ?e"
    by (simp add: well_formed_def header_sender_def header_recipient_def sample_header_def)
  have b: "Message_toBytes ?e = [1, 1, 1, 7, 1, 1, 1, 1, 1, 2, 104, 105]"
    by (simp add: Message_toBytes_def header_sender_def header_recipient_def sample_header_def
        put_optional_def put_bundle_def put_field_def put_len.simps)
  have b0: "Message_toBytes (?e\<lparr>decrypted := None\<rparr>) = Message_toBytes ?e"
    by (simp add: Message_toBytes_def header_sender_def header_recipient_def)
  show ?thesis
    using h b codec_round_trip [OF h, of "Some ''hi''"]
    unfolding b0 [unfolded b] b
    by simp
qed

subsection \<open>C7: the topic of an identifier\<close>

text \<open>
  C7, as the code has it. \<^verbatim>\<open>buildContentTopic\<close> is a total function of the identifier: for
  every identifier, the empty one too, it returns the identifier between the prefix
  \<^verbatim>\<open>/xmtp/0/\<close> and the suffix \<^verbatim>\<open>/proto\<close>. It has no failure mode.
\<close>

theorem buildContentTopic_format:
  "buildContentTopic name = ''/xmtp/0/'' @ name @ ''/proto'' \<and>
   length (buildContentTopic name) = length name + 14"
  by (simp add: buildContentTopic_def)

text \<open>
  C7 as stated fails: the empty identifier is not rejected, it gives a topic.
\<close>

theorem buildContentTopic_empty_counterexample:
  "buildContentTopic '''' = ''/xmtp/0//proto''"
  by (simp add: buildContentTopic_def)

subsection \<open>C8: a decryption failure in listMessages\<close>

text \<open>
  C8. When the store answers the query that \<^verbatim>\<open>listMessages\<close> made with a list holding an
  item whose payload decodes to an envelope with ciphertext and sender and whose
  decryption fails, the promise of \<^verbatim>\<open>listMessages\<close> is rejected: no list of messages is
  returned.
\<close>

theorem list_decrypt_failure_rejects:
  assumes made: "queries (snd (listMessages d rc opts w)) = queries w @ [(topics, q)]"
    and answer: "queryHistory d topics q = Inr wakuMsgs"
    and item: "m \<in> set wakuMsgs" "payload m = Some pl"
    and decoded: "fromBytes d pl = Inr msg" "ciphertext msg = Some c" "header_sender msg = Some s"
    and failure: "decrypt d rc c s = Inl e"
  shows "\<exists>e'. fst (listMessages d rc opts w) = Rejected e'"
proof (cases "identityKey rc")
  case None
  then show ?thesis
    by (simp add: listMessages_def Let_def split: prod.splits)
next
  case (Some k)
  obtain a w0 where o: "opts_or_new opts w = (a, w0)" by (cases "opts_or_new opts w")
  have q0: "queries w0 = queries w" using queries_opts_or_new [of opts w] o by simp
  let ?w3 = "default_pageSize a (default_endTime a (default_startTime a w0))"
  let ?T = "buildContentTopic (getEthereumAddress d (getPublicKey d k))"
  let ?q = "\<lparr>q_pageSize = pageSize (objects ?w3 a), pageDirection = FORWARD,
             tf_startTime = startTime (objects ?w3 a), tf_endTime = endTime (objects ?w3 a)\<rparr>"
  have "queries (snd (listMessages d rc opts w)) = queries w @ [([?T], ?q)]"
    using Some o q0 by (simp add: listMessages_def Let_def split: sum.splits)
  with made have tq: "topics = [?T]" "q = ?q" by simp_all
  have "start_decode d rc pl = Awaiting msg (Inl e)"
    using decoded failure by (simp add: start_decode_def)
  moreover have "pl \<in> set (payloads wakuMsgs)" using item by (rule payloads_member)
  ultimately have "Awaiting msg (Inl e) \<in> set (map (start_decode d rc) (payloads wakuMsgs))"
    by force
  then have "rejections (map (start_decode d rc) (payloads wakuMsgs)) \<noteq> []"
    by (rule rejections_nonempty)
  then obtain e' where "Promise_all d (map (start_decode d rc) (payloads wakuMsgs)) = Inl e'"
    using Promise_all_rejects by blast
  then show ?thesis
    using Some o answer tq by (simp add: listMessages_def Let_def)
qed

theorem list_decrypt_failure_rejects_witness:
  "queries (snd (listMessages
       (sample_deps [on_alice_topic payload_hi, on_alice_topic payload_empty_ciphertext])
       alice None sample_world)) =
     queries sample_world @
       [([alice_topic], \<lparr>q_pageSize = Some 10, pageDirection = FORWARD,
                         tf_startTime = Some (- 604798500), tf_endTime = Some 1000\<rparr>)] \<and>
   on_alice_topic payload_empty_ciphertext \<in>
     set [on_alice_topic payload_hi, on_alice_topic payload_empty_ciphertext] \<and>
   fromBytes (sample_deps [on_alice_topic payload_hi, on_alice_topic payload_empty_ciphertext])
       payload_empty_ciphertext = Inr (envelope (Some []) None) \<and>
   decrypt (sample_deps [on_alice_topic payload_hi, on_alice_topic payload_empty_ciphertext])
       alice [] \<lparr>identityKey = Some (PublicKey [7])\<rparr> = Inl (Error ''decrypt'') \<and>
   (\<exists>e'. fst (listMessages
       (sample_deps [on_alice_topic payload_hi, on_alice_topic payload_empty_ciphertext])
       alice None sample_world) = Rejected e')"
proof -
  let ?d = "sample_deps [on_alice_topic payload_hi, on_alice_topic payload_empty_ciphertext]"
  let ?q = "\<lparr>q_pageSize = Some 10, pageDirection = FORWARD,
                         tf_startTime = Some (- 604798500), tf_endTime = Some 1000\<rparr>"
  let ?msg = "envelope (Some []) None"
  have t: "buildContentTopic (getEthereumAddress ?d (getPublicKey ?d (PrivateKey [1]))) = alice_topic"
    using alice_topic_eq [of "[on_alice_topic payload_hi, on_alice_topic payload_empty_ciphertext]"]
    by simp
  have s0: "clock sample_world = clock_1500"
    by (simp_all add: sample_world_def fresh_world_def)
  have made: "queries (snd (listMessages ?d alice None sample_world)) =
                queries sample_world @ [([alice_topic], ?q)]"
    using listMessages_queries_None [OF alice_key, of ?d sample_world]
    by (simp add: t s0 clock_1500_def)
  have answer: "queryHistory ?d [alice_topic] ?q =
      Inr [on_alice_topic payload_hi, on_alice_topic payload_empty_ciphertext]"
    by (simp add: sample_deps_def)
  have item: "on_alice_topic payload_empty_ciphertext \<in>
      set [on_alice_topic payload_hi, on_alice_topic payload_empty_ciphertext]"
    by simp
  have pl: "payload (on_alice_topic payload_empty_ciphertext) = Some payload_empty_ciphertext"
    by (simp add: on_alice_topic_def)
  have dec: "fromBytes ?d payload_empty_ciphertext = Inr ?msg" "ciphertext ?msg = Some []"
    "header_sender ?msg = Some \<lparr>identityKey = Some (PublicKey [7])\<rparr>"
    by (simp_all add: decode_samples envelope_def header_sender_def sample_header_def)
  have failure: "decrypt ?d alice [] \<lparr>identityKey = Some (PublicKey [7])\<rparr> = Inl (Error ''decrypt'')"
    by (simp add: sample_decrypt_def)
  show ?thesis
    using made item dec(1) failure
      list_decrypt_failure_rejects [OF made answer item pl dec failure]
    by blast
qed

subsection \<open>C9: the key generator provider\<close>

text \<open>
  C9. \<^verbatim>\<open>newKeystore\<close> without a wallet is rejected with
  \<^verbatim>\<open>KeystoreProviderUnavailableError\<close> and calls nothing; with a wallet it resolves to a
  keystore, the notifier, when supplied, has been called exactly once more, and no other
  function has been called.
\<close>

theorem newKeystore_policy:
  "newKeystore opts apiClient None calls =
     (Rejected (KeystoreProviderUnavailableError ''wallet required''), calls) \<and>
   fst (newKeystore opts apiClient (Some wallet) calls) = Resolved (Keystore wallet) \<and>
   (\<forall>n. preCreateIdentityNotifier opts = Some n \<longrightarrow>
        snd (newKeystore opts apiClient (Some wallet) calls) n = calls n + 1) \<and>
   (\<forall>m. preCreateIdentityNotifier opts \<noteq> Some m \<longrightarrow>
        snd (newKeystore opts apiClient (Some wallet) calls) m = calls m)"
  by (simp add: newKeystore_def split: option.splits)

theorem newKeystore_policy_witness:
  "preCreateIdentityNotifier sample_options = Some 3 \<and>
   newKeystore sample_options (ApiClient ''local'') None no_calls =
     (Rejected (KeystoreProviderUnavailableError ''wallet required''), no_calls) \<and>
   fst (newKeystore sample_options (ApiClient ''local'') (Some (Signer ''w'')) no_calls) =
     Resolved (Keystore (Signer ''w'')) \<and>
   snd (newKeystore sample_options (ApiClient ''local'') (Some (Signer ''w'')) no_calls) 3 = 1 \<and>
   snd (newKeystore sample_options (ApiClient ''local'') (Some (Signer ''w'')) no_calls) 4 = 0"
proof -
  have h: "preCreateIdentityNotifier sample_options = Some 3"
    by (simp add: sample_options_def)
  show ?thesis
    using h newKeystore_policy [of sample_options "ApiClient ''local''" no_calls "Signer ''w''"]
    by (simp add: no_calls_def)
qed

subsection \<open>C10: the defaults are written into the caller's object\<close>

text \<open>
  C10. When the caller supplies an options object, each of its unset fields holds the
  default after the call, in the caller's own object, whatever the recipient is; so an
  object with an unset field is changed by the call.
\<close>

theorem list_defaults_in_place:
  "(startTime (objects w a) = None \<longrightarrow>
      startTime (objects (snd (listMessages d rc (Some a) w)) a) =
        Some (clock w (Suc (ticks w)) - 604800000)) \<and>
   (endTime (objects w a) = None \<longrightarrow>
      endTime (objects (snd (listMessages d rc (Some a) w)) a) =
        Some (1000 * (clock w (if startTime (objects w a) = None then ticks w + 2 else ticks w)
                        div 1000))) \<and>
   (pageSize (objects w a) = None \<longrightarrow>
      pageSize (objects (snd (listMessages d rc (Some a) w)) a) = Some 10) \<and>
   (startTime (objects w a) = None \<or> endTime (objects w a) = None \<or> pageSize (objects w a) = None
      \<longrightarrow> objects (snd (listMessages d rc (Some a) w)) a \<noteq> objects w a)"
  by (cases "objects w a")
     (auto simp add: listMessages_objects with_defaults_def Date_of_UTCString_def)

theorem list_defaults_in_place_witness:
  "startTime (objects sample_world 5) = None \<and> endTime (objects sample_world 5) = None \<and>
   pageSize (objects sample_world 5) = None \<and>
   objects (snd (listMessages (sample_deps []) nobody (Some 5) sample_world)) 5 =
     \<lparr>pageSize = Some 10, startTime = Some (- 604798500), endTime = Some 1000\<rparr>"
proof -
  have s0: "objects sample_world 5 = \<lparr>pageSize = None, startTime = None, endTime = None\<rparr>"
    "clock sample_world = clock_1500"
    by (simp_all add: sample_world_def fresh_world_def)
  show ?thesis
    using list_defaults_in_place [of sample_world 5 "sample_deps []" nobody]
    by (cases "objects (snd (listMessages (sample_deps []) nobody (Some 5) sample_world)) 5")
       (simp add: s0 clock_1500_def)
qed

end
